theory Spec2Isabelle
  imports Main "HOL-Library.Word"
begin

section \<open>The plugin factory registries of rlclientlib (factory_resolver.cc)\<close>

text \<open>
  The translation unit owns four process-wide registries (data transport, model, sender,
  trace logger), a counter \<open>init_guard\<close> that gates their construction and destruction
  (the nifty-counter idiom), and the built-in factory functions that populate them.
  The model below follows the file function by function. What the file only includes
  (the registry template, the configuration class, the constants, the concrete classes
  it instantiates) is either a parameter or a small definition marked as modelled from
  the specification.
\<close>

subsection \<open>Objects, pointers and the free store\<close>

text \<open>
  A pointer is an address or \<open>nullptr\<close> (\<open>None\<close>). The free store is the list of the
  objects allocated so far; the address of an object is its index. An object is recorded
  as the constructor call that made it, with the arguments the source passes:
  \<^verbatim>\<open>new m::vw_model(trace_logger)\<close>, \<^verbatim>\<open>new console_tracer()\<close> and
  \<^verbatim>\<open>new logger::file::file_logger(file_name, trace_logger)\<close>.
  Allocation is taken to succeed (no \<open>std::bad_alloc\<close>), and the constructors of the three
  classes, which are not part of this translation unit, are taken to return.
\<close>

type_synonym addr = nat

datatype obj =
    Vw_model "addr option"
  | Console_tracer
  | File_logger string "addr option"

type_synonym heap = "obj list"

definition new_obj :: "obj \<Rightarrow> heap \<Rightarrow> addr \<times> heap" where
  "new_obj x h = (length h, h @ [x])"

definition allocated :: "heap \<Rightarrow> addr \<Rightarrow> bool" where
  "allocated h a = (a < length h)"

subsection \<open>Configuration, status and constants\<close>

text \<open>
  Modelled from the spec: the class \<open>utility::configuration\<close> is not in the translation
  unit. The specification describes it as a read-only key/value lookup with a
  caller-supplied default value; \<open>get c name defval\<close> is the stored value of \<open>name\<close>, or
  \<open>defval\<close> when the option is not set.
\<close>

type_synonym configuration = "string \<rightharpoonup> string"

definition get :: "configuration \<Rightarrow> string \<Rightarrow> string \<Rightarrow> string" where
  "get c name defval = (case c name of Some v \<Rightarrow> v | None \<Rightarrow> defval)"

text \<open>
  The status object behind \<open>api_status* status\<close>: \<open>None\<close> when the caller passed
  \<open>nullptr\<close>, otherwise its current content. A factory returns the content after the call.
\<close>

record api_status =
  error_code :: int
  error_msg :: string

text \<open>
  The constants of \<open>constants.h\<close> and \<open>err_constants.h\<close> that the file uses. Their values
  are not in the translation unit, so every function takes them as the parameter \<open>K\<close>.
\<close>

record constants =
  success :: int
  VW :: string
  NULL_TRACE_LOGGER :: string
  CONSOLE_TRACE_LOGGER :: string
  OBSERVATION_FILE_SENDER :: string
  INTERACTION_FILE_SENDER :: string
  OBSERVATION_FILE_NAME :: string
  INTERACTION_FILE_NAME :: string

subsection \<open>The built-in factory functions\<close>

text \<open>
  What a factory call leaves behind: the returned result code, the output slot
  \<open>*retval\<close>, the status object and the free store. Every factory of the file assigns
  \<open>*retval\<close> unconditionally, so the slot's previous content is not an input.
\<close>

record creation =
  result_code :: int
  retval :: "addr option"
  status :: "api_status option"
  store :: heap

type_synonym create_fn =
  "configuration \<Rightarrow> addr option \<Rightarrow> api_status option \<Rightarrow> heap \<Rightarrow> creation"

type_synonym sender_create_fn =
  "configuration \<Rightarrow> addr option \<Rightarrow> addr option \<Rightarrow> api_status option \<Rightarrow> heap \<Rightarrow> creation"

definition vw_model_create :: "constants \<Rightarrow> create_fn" where
  "vw_model_create K cfg trace_logger st h =
     (let (p, h') = new_obj (Vw_model trace_logger) h in
      \<lparr>result_code = success K, retval = Some p, status = st, store = h'\<rparr>)"

definition null_tracer_create :: "constants \<Rightarrow> create_fn" where
  "null_tracer_create K cfg trace_logger st h =
     \<lparr>result_code = success K, retval = None, status = st, store = h\<rparr>"

definition console_tracer_create :: "constants \<Rightarrow> create_fn" where
  "console_tracer_create K cfg trace_logger st h =
     (let (p, h') = new_obj Console_tracer h in
      \<lparr>result_code = success K, retval = Some p, status = st, store = h'\<rparr>)"

definition file_sender_create ::
  "constants \<Rightarrow> configuration \<Rightarrow> string \<Rightarrow> addr option \<Rightarrow> addr option \<Rightarrow>
   api_status option \<Rightarrow> heap \<Rightarrow> creation" where
  "file_sender_create K cfg file_name error_cb trace_logger st h =
     (let (p, h') = new_obj (File_logger file_name trace_logger) h in
      \<lparr>result_code = success K, retval = Some p, status = st, store = h'\<rparr>)"

text \<open>
  The two closures that \<open>register_default_factories\<close> registers under
  \<open>value::OBSERVATION_FILE_SENDER\<close> and \<open>value::INTERACTION_FILE_SENDER\<close>.
\<close>

definition observation_file_sender :: "constants \<Rightarrow> sender_create_fn" where
  "observation_file_sender K c cb trace_logger st h =
     (let file_name = get c (OBSERVATION_FILE_NAME K) ''observation.fb.data'' in
      file_sender_create K c file_name cb trace_logger st h)"

definition interaction_file_sender :: "constants \<Rightarrow> sender_create_fn" where
  "interaction_file_sender K c cb trace_logger st h =
     (let file_name = get c (INTERACTION_FILE_NAME K) ''interaction.fb.data'' in
      file_sender_create K c file_name cb trace_logger st h)"

subsection \<open>The registries\<close>

text \<open>
  Modelled from the spec: the registry template (\<open>factory_resolver.h\<close>) is not in the
  translation unit. The specification describes a registry as a mapping from a string
  key to a creation function, and \<open>register_type\<close> as storing the function under the key
  and returning nothing or an error; whether a duplicate key overwrites or fails is left
  open there, so the policy is a parameter. A failed registration leaves the registry
  as it was.
\<close>

type_synonym 'f factory_t = "string \<rightharpoonup> 'f"

datatype dup_policy = Overwrite | Fail_on_duplicate

datatype reg_error = DuplicateRegistration

definition register_type ::
  "dup_policy \<Rightarrow> string \<Rightarrow> 'f \<Rightarrow> 'f factory_t \<Rightarrow> reg_error option \<times> 'f factory_t" where
  "register_type pol name fptr m =
     (if pol = Fail_on_duplicate \<and> m name \<noteq> None then (Some DuplicateRegistration, m)
      else (None, m(name \<mapsto> fptr)))"

text \<open>
  The process-wide state of the translation unit: the counter and the four statically
  allocated buffers. A buffer is \<open>None\<close> while it is raw storage (before placement new,
  after the destructor call) and \<open>Some m\<close> while it holds a constructed registry.
  The counter is a C++ \<open>int\<close>, modelled as a 32-bit word in two's complement: the
  increment and the decrement wrap around, as they do in the compiled program (the C++
  standard leaves signed overflow undefined). The file only compares the counter with
  0, so the sign of a value never matters.
\<close>

record globals =
  init_guard :: "32 word"
  data_transport_factory :: "create_fn factory_t option"
  model_factory :: "create_fn factory_t option"
  sender_factory :: "sender_create_fn factory_t option"
  trace_logger_factory :: "create_fn factory_t option"

definition initial :: globals where
  "initial = \<lparr>init_guard = 0, data_transport_factory = None, model_factory = None,
     sender_factory = None, trace_logger_factory = None\<rparr>"

text \<open>
  A call \<open>registry.register_type(name, fptr);\<close> on one of the global registries. Every
  such call in the file is an expression statement: what \<open>register_type\<close> returns is
  dropped. (On raw storage the call would be undefined; the buffer is left as it is.)
\<close>

definition call_register_type ::
  "dup_policy \<Rightarrow> string \<Rightarrow> 'f \<Rightarrow> 'f factory_t option \<Rightarrow> 'f factory_t option" where
  "call_register_type pol name fptr r = map_option (\<lambda>m. snd (register_type pol name fptr m)) r"

text \<open>
  Modelled from the spec: \<open>register_azure_factories\<close> (\<open>azure_factories.h\<close>) is not in the
  translation unit. By the specification the collaborator is given the four registries
  and performs its own \<open>register\<close> calls before returning; the calls it makes are the
  parameter \<open>az\<close>.
\<close>

datatype registration =
    Reg_data_transport string create_fn
  | Reg_model string create_fn
  | Reg_sender string sender_create_fn
  | Reg_trace_logger string create_fn

fun perform :: "dup_policy \<Rightarrow> registration \<Rightarrow> globals \<Rightarrow> globals" where
  "perform pol (Reg_data_transport name f) s =
     s\<lparr>data_transport_factory := call_register_type pol name f (data_transport_factory s)\<rparr>"
| "perform pol (Reg_model name f) s =
     s\<lparr>model_factory := call_register_type pol name f (model_factory s)\<rparr>"
| "perform pol (Reg_sender name f) s =
     s\<lparr>sender_factory := call_register_type pol name f (sender_factory s)\<rparr>"
| "perform pol (Reg_trace_logger name f) s =
     s\<lparr>trace_logger_factory := call_register_type pol name f (trace_logger_factory s)\<rparr>"

fun register_azure_factories :: "dup_policy \<Rightarrow> registration list \<Rightarrow> globals \<Rightarrow> globals" where
  "register_azure_factories pol [] s = s"
| "register_azure_factories pol (r # rs) s = register_azure_factories pol rs (perform pol r s)"

definition register_default_factories ::
  "constants \<Rightarrow> dup_policy \<Rightarrow> registration list \<Rightarrow> globals \<Rightarrow> globals" where
  "register_default_factories K pol az s =
     (let s1 = register_azure_factories pol az s;
          s2 = s1\<lparr>model_factory :=
                 call_register_type pol (VW K) (vw_model_create K) (model_factory s1)\<rparr>;
          s3 = s2\<lparr>trace_logger_factory :=
                 call_register_type pol (NULL_TRACE_LOGGER K) (null_tracer_create K)
                   (trace_logger_factory s2)\<rparr>;
          s4 = s3\<lparr>trace_logger_factory :=
                 call_register_type pol (CONSOLE_TRACE_LOGGER K) (console_tracer_create K)
                   (trace_logger_factory s3)\<rparr>;
          s5 = s4\<lparr>sender_factory :=
                 call_register_type pol (OBSERVATION_FILE_SENDER K) (observation_file_sender K)
                   (sender_factory s4)\<rparr>;
          s6 = s5\<lparr>sender_factory :=
                 call_register_type pol (INTERACTION_FILE_SENDER K) (interaction_file_sender K)
                   (sender_factory s5)\<rparr>
      in s6)"

subsection \<open>The lifecycle guard\<close>

text \<open>
  The constructor and the destructor of \<open>factory_initializer\<close> return the new state
  together with the effects they had on the four buffers, in program order: a placement
  new, a destructor call, or the call of \<open>register_default_factories\<close>.
\<close>

datatype axis = Data_transport | Model | Sender | Trace_logger

datatype effect = Placement_new axis | Destructor axis | Register_defaults

definition initialization :: "effect list" where
  "initialization = [Placement_new Data_transport, Placement_new Model, Placement_new Sender,
     Placement_new Trace_logger, Register_defaults]"

definition teardown :: "effect list" where
  "teardown = [Destructor Data_transport, Destructor Model, Destructor Sender,
     Destructor Trace_logger]"

definition factory_initializer_ctor ::
  "constants \<Rightarrow> dup_policy \<Rightarrow> registration list \<Rightarrow> globals \<Rightarrow> effect list \<times> globals" where
  "factory_initializer_ctor K pol az s =
     (let old = init_guard s;
          s0 = s\<lparr>init_guard := old + 1\<rparr>
      in if old = 0 then
           (let s1 = s0\<lparr>data_transport_factory := Some Map.empty\<rparr>;
                s2 = s1\<lparr>model_factory := Some Map.empty\<rparr>;
                s3 = s2\<lparr>sender_factory := Some Map.empty\<rparr>;
                s4 = s3\<lparr>trace_logger_factory := Some Map.empty\<rparr>
            in (initialization, register_default_factories K pol az s4))
         else ([], s0))"

definition factory_initializer_dtor :: "globals \<Rightarrow> effect list \<times> globals" where
  "factory_initializer_dtor s =
     (let s0 = s\<lparr>init_guard := init_guard s - 1\<rparr>
      in if init_guard s0 = 0 then
           (let s1 = s0\<lparr>data_transport_factory := None\<rparr>;
                s2 = s1\<lparr>model_factory := None\<rparr>;
                s3 = s2\<lparr>sender_factory := None\<rparr>;
                s4 = s3\<lparr>trace_logger_factory := None\<rparr>
            in (teardown, s4))
         else ([], s0))"

text \<open>A run of the process: guard objects are constructed and destroyed one after another.\<close>

datatype event = Construct | Destroy

fun run ::
  "constants \<Rightarrow> dup_policy \<Rightarrow> registration list \<Rightarrow> event list \<Rightarrow> globals \<Rightarrow> effect list \<times> globals" where
  "run K pol az [] s = ([], s)"
| "run K pol az (Construct # es) s =
     (let (fx, s') = factory_initializer_ctor K pol az s;
          (fy, s'') = run K pol az es s'
      in (fx @ fy, s''))"
| "run K pol az (Destroy # es) s =
     (let (fx, s') = factory_initializer_dtor s;
          (fy, s'') = run K pol az es s'
      in (fx @ fy, s''))"

subsection \<open>Vocabulary of the properties\<close>

text \<open>The object the output slot points to after a factory call, if any.\<close>

definition created :: "creation \<Rightarrow> obj option" where
  "created out =
     (case retval out of
        None \<Rightarrow> None
      | Some p \<Rightarrow> if allocated (store out) p then Some (store out ! p) else None)"

text \<open>
  The output slot holds a newly created object: its address was not allocated in the
  store \<open>h\<close> before the call, it is allocated after the call, and the objects that
  existed before are untouched.
\<close>

definition newly_created :: "heap \<Rightarrow> creation \<Rightarrow> bool" where
  "newly_created h out =
     (case retval out of
        None \<Rightarrow> False
      | Some p \<Rightarrow> \<not> allocated h p \<and> allocated (store out) p \<and> take (length h) (store out) = h)"

text \<open>
  The success contract of the creation protocol, in the words of the specification:
  on success the output slot holds a newly created object and the status is left as
  the caller passed it.
\<close>

definition success_contract :: "constants \<Rightarrow> api_status option \<Rightarrow> heap \<Rightarrow> creation \<Rightarrow> bool" where
  "success_contract K st h out =
     (result_code out = success K \<longrightarrow> newly_created h out \<and> status out = st)"

text \<open>A concrete choice of the constants, on which the model is evaluated in examples.\<close>

definition example_constants :: constants where
  "example_constants = \<lparr>success = 0, VW = ''VW'', NULL_TRACE_LOGGER = ''NULL_TRACE_LOGGER'',
     CONSOLE_TRACE_LOGGER = ''CONSOLE_TRACE_LOGGER'',
     OBSERVATION_FILE_SENDER = ''OBSERVATION_FILE_SENDER'',
     INTERACTION_FILE_SENDER = ''INTERACTION_FILE_SENDER'',
     OBSERVATION_FILE_NAME = ''observation.file.name'',
     INTERACTION_FILE_NAME = ''interaction.file.name''\<rparr>"

definition all_initialized :: "globals \<Rightarrow> bool" where
  "all_initialized s =
     (data_transport_factory s \<noteq> None \<and> model_factory s \<noteq> None \<and>
      sender_factory s \<noteq> None \<and> trace_logger_factory s \<noteq> None)"

definition all_uninitialized :: "globals \<Rightarrow> bool" where
  "all_uninitialized s =
     (data_transport_factory s = None \<and> model_factory s = None \<and>
      sender_factory s = None \<and> trace_logger_factory s = None)"

text \<open>
  The specification's view of a run, in terms of the number \<open>n\<close> of guard objects alive:
  a run is balanced when every destruction has a construction before it; \<open>live_guards\<close>
  counts the guards alive at the end; \<open>crossings\<close> lists the effects the specification
  asks for, an initialization at each step from 0 to 1 and a teardown at each step from 1
  to 0; \<open>lifecycle_state\<close> is the state it asks for: nothing while no guard is alive, and
  otherwise the registries \<open>populated\<close>, four empty registries on which the default
  factory set has been registered. \<open>peak\<close> is the largest number of guards alive at any
  moment of a run, and \<open>counter_range\<close> the number of values of the 32-bit counter.
\<close>

fun balanced :: "nat \<Rightarrow> event list \<Rightarrow> bool" where
  "balanced n [] = True"
| "balanced n (Construct # es) = balanced (Suc n) es"
| "balanced n (Destroy # es) = (0 < n \<and> balanced (n - 1) es)"

fun live_guards :: "nat \<Rightarrow> event list \<Rightarrow> nat" where
  "live_guards n [] = n"
| "live_guards n (Construct # es) = live_guards (Suc n) es"
| "live_guards n (Destroy # es) = live_guards (n - 1) es"

fun crossings :: "nat \<Rightarrow> event list \<Rightarrow> effect list" where
  "crossings n [] = []"
| "crossings n (Construct # es) = (if n = 0 then initialization else []) @ crossings (Suc n) es"
| "crossings n (Destroy # es) = (if n = 1 then teardown else []) @ crossings (n - 1) es"

fun peak :: "nat \<Rightarrow> event list \<Rightarrow> nat" where
  "peak n [] = n"
| "peak n (Construct # es) = max n (peak (Suc n) es)"
| "peak n (Destroy # es) = max n (peak (n - 1) es)"

definition counter_range :: nat where
  "counter_range = 4294967296"

definition populated :: "constants \<Rightarrow> dup_policy \<Rightarrow> registration list \<Rightarrow> globals" where
  "populated K pol az =
     register_default_factories K pol az
       \<lparr>init_guard = 1, data_transport_factory = Some Map.empty,
        model_factory = Some Map.empty, sender_factory = Some Map.empty,
        trace_logger_factory = Some Map.empty\<rparr>"

definition lifecycle_state :: "constants \<Rightarrow> dup_policy \<Rightarrow> registration list \<Rightarrow> nat \<Rightarrow> globals" where
  "lifecycle_state K pol az n =
     (if n = 0 then initial else (populated K pol az)\<lparr>init_guard := of_nat n\<rparr>)"


text \<open>The registries constructed, and the registries destroyed, by a list of effects, in order.\<close>

fun initialized_axes :: "effect list \<Rightarrow> axis list" where
  "initialized_axes [] = []"
| "initialized_axes (Placement_new a # fx) = a # initialized_axes fx"
| "initialized_axes (_ # fx) = initialized_axes fx"

fun destroyed_axes :: "effect list \<Rightarrow> axis list" where
  "destroyed_axes [] = []"
| "destroyed_axes (Destructor a # fx) = a # destroyed_axes fx"
| "destroyed_axes (_ # fx) = destroyed_axes fx"

section \<open>The factory functions\<close>

lemma vw_model_create_simps:
  "result_code (vw_model_create K cfg tr st h) = success K"
  "retval (vw_model_create K cfg tr st h) = Some (length h)"
  "status (vw_model_create K cfg tr st h) = st"
  "store (vw_model_create K cfg tr st h) = h @ [Vw_model tr]"
  by (simp_all add: vw_model_create_def new_obj_def)

lemma console_tracer_create_simps:
  "result_code (console_tracer_create K cfg tr st h) = success K"
  "retval (console_tracer_create K cfg tr st h) = Some (length h)"
  "status (console_tracer_create K cfg tr st h) = st"
  "store (console_tracer_create K cfg tr st h) = h @ [Console_tracer]"
  by (simp_all add: console_tracer_create_def new_obj_def)

lemma null_tracer_create_simps:
  "result_code (null_tracer_create K cfg tr st h) = success K"
  "retval (null_tracer_create K cfg tr st h) = None"
  "status (null_tracer_create K cfg tr st h) = st"
  "store (null_tracer_create K cfg tr st h) = h"
  by (simp_all add: null_tracer_create_def)

lemma file_sender_create_simps:
  "result_code (file_sender_create K cfg file_name cb tr st h) = success K"
  "retval (file_sender_create K cfg file_name cb tr st h) = Some (length h)"
  "status (file_sender_create K cfg file_name cb tr st h) = st"
  "store (file_sender_create K cfg file_name cb tr st h) = h @ [File_logger file_name tr]"
  by (simp_all add: file_sender_create_def new_obj_def)

lemma created_appended:
  "retval out = Some (length h) \<Longrightarrow> store out = h @ [x] \<Longrightarrow> created out = Some x"
  by (simp add: created_def allocated_def)

lemma newly_created_appended:
  "retval out = Some (length h) \<Longrightarrow> store out = h @ [x] \<Longrightarrow> newly_created h out"
  by (simp add: newly_created_def allocated_def)

section \<open>The registries and the lifecycle guard\<close>

text \<open>Registration never constructs or destroys a registry, and never touches the counter.\<close>

lemma call_register_type_None [simp]:
  "call_register_type pol name f r = None \<longleftrightarrow> r = None"
  by (simp add: call_register_type_def)

lemma perform_keeps:
  "init_guard (perform pol r s) = init_guard s"
  "data_transport_factory (perform pol r s) = None \<longleftrightarrow> data_transport_factory s = None"
  "model_factory (perform pol r s) = None \<longleftrightarrow> model_factory s = None"
  "sender_factory (perform pol r s) = None \<longleftrightarrow> sender_factory s = None"
  "trace_logger_factory (perform pol r s) = None \<longleftrightarrow> trace_logger_factory s = None"
  by (cases r; simp)+

lemma register_azure_factories_keeps:
  "init_guard (register_azure_factories pol az s) = init_guard s"
  "data_transport_factory (register_azure_factories pol az s) = None \<longleftrightarrow> data_transport_factory s = None"
  "model_factory (register_azure_factories pol az s) = None \<longleftrightarrow> model_factory s = None"
  "sender_factory (register_azure_factories pol az s) = None \<longleftrightarrow> sender_factory s = None"
  "trace_logger_factory (register_azure_factories pol az s) = None \<longleftrightarrow> trace_logger_factory s = None"
  by (induction az arbitrary: s; simp add: perform_keeps)+

lemma register_default_factories_keeps:
  "init_guard (register_default_factories K pol az s) = init_guard s"
  "data_transport_factory (register_default_factories K pol az s) = None \<longleftrightarrow> data_transport_factory s = None"
  "model_factory (register_default_factories K pol az s) = None \<longleftrightarrow> model_factory s = None"
  "sender_factory (register_default_factories K pol az s) = None \<longleftrightarrow> sender_factory s = None"
  "trace_logger_factory (register_default_factories K pol az s) = None \<longleftrightarrow> trace_logger_factory s = None"
  by (simp_all add: register_default_factories_def Let_def register_azure_factories_keeps)

lemma ctor_at_zero:
  "init_guard s = 0 \<Longrightarrow> fst (factory_initializer_ctor K pol az s) = initialization"
  "init_guard s = 0 \<Longrightarrow> init_guard (snd (factory_initializer_ctor K pol az s)) = 1"
  "init_guard s = 0 \<Longrightarrow> all_initialized (snd (factory_initializer_ctor K pol az s))"
  by (simp_all add: factory_initializer_ctor_def Let_def register_default_factories_keeps
      all_initialized_def)

lemma ctor_above_zero:
  "init_guard s \<noteq> 0 \<Longrightarrow>
     factory_initializer_ctor K pol az s = ([], s\<lparr>init_guard := init_guard s + 1\<rparr>)"
  by (simp add: factory_initializer_ctor_def Let_def)

lemma dtor_at_one:
  "init_guard s = 1 \<Longrightarrow> fst (factory_initializer_dtor s) = teardown"
  "init_guard s = 1 \<Longrightarrow> init_guard (snd (factory_initializer_dtor s)) = 0"
  "init_guard s = 1 \<Longrightarrow> all_uninitialized (snd (factory_initializer_dtor s))"
  by (simp_all add: factory_initializer_dtor_def Let_def all_uninitialized_def)

lemma dtor_elsewhere:
  "init_guard s \<noteq> 1 \<Longrightarrow>
     factory_initializer_dtor s = ([], s\<lparr>init_guard := init_guard s - 1\<rparr>)"
  by (simp add: factory_initializer_dtor_def Let_def)

lemma ctor_initial:
  "factory_initializer_ctor K pol az initial = (initialization, populated K pol az)"
  by (simp add: factory_initializer_ctor_def Let_def initial_def populated_def)

lemma init_guard_populated: "init_guard (populated K pol az) = 1"
  by (simp add: populated_def register_default_factories_keeps)

lemma dtor_populated:
  "factory_initializer_dtor (populated K pol az) = (teardown, initial)"
proof -
  have "snd (factory_initializer_dtor (populated K pol az)) = initial"
    by (simp add: factory_initializer_dtor_def Let_def initial_def init_guard_populated)
  moreover have "fst (factory_initializer_dtor (populated K pol az)) = teardown"
    by (rule dtor_at_one) (rule init_guard_populated)
  ultimately show ?thesis by (simp add: prod_eq_iff)
qed

lemma populated_guard_one: "(populated K pol az)\<lparr>init_guard := 1\<rparr> = populated K pol az"
  by (simp add: init_guard_populated)

lemma of_nat_counter_0:
  "0 < n \<Longrightarrow> n < counter_range \<Longrightarrow> (of_nat n :: 32 word) \<noteq> 0"
  by (auto simp add: word_of_nat_eq_0_iff counter_range_def dest: dvd_imp_le)

lemma of_nat_counter_range: "(of_nat counter_range :: 32 word) = 0"
  by (simp add: counter_range_def)

lemma ctor_lifecycle_state:
  assumes "n < counter_range"
  shows "factory_initializer_ctor K pol az (lifecycle_state K pol az n) =
     (if n = 0 then initialization else [], lifecycle_state K pol az (Suc n))"
proof (cases "n = 0")
  case True
  then show ?thesis
    by (simp add: lifecycle_state_def ctor_initial populated_guard_one)
next
  case False
  with assms have "(of_nat n :: 32 word) \<noteq> 0"
    by (simp add: of_nat_counter_0)
  with False show ?thesis
    by (simp add: lifecycle_state_def ctor_above_zero add.commute)
qed

lemma dtor_lifecycle_state:
  assumes "0 < n" and "n \<le> counter_range"
  shows "factory_initializer_dtor (lifecycle_state K pol az n) =
     (if n = 1 then teardown else [], lifecycle_state K pol az (n - 1))"
proof (cases "n = 1")
  case True
  then show ?thesis
    by (simp add: lifecycle_state_def populated_guard_one dtor_populated)
next
  case False
  with assms have two: "2 \<le> n" by simp
  then have pred: "(of_nat n :: 32 word) - 1 = of_nat (n - 1)" by simp
  from two assms have "(of_nat (n - 1) :: 32 word) \<noteq> 0"
    by (intro of_nat_counter_0) simp_all
  with pred have "(of_nat n :: 32 word) \<noteq> 1" by auto
  with False assms two pred show ?thesis
    by (simp add: lifecycle_state_def dtor_elsewhere)
qed

lemma peak_ge: "n \<le> peak n evs"
  by (induction n evs rule: peak.induct) simp_all

lemma run_lifecycle_state:
  "balanced n evs \<Longrightarrow> peak n evs \<le> counter_range \<Longrightarrow>
     run K pol az evs (lifecycle_state K pol az n) =
       (crossings n evs, lifecycle_state K pol az (live_guards n evs))"
proof (induction n evs rule: balanced.induct)
  case (1 n)
  then show ?case by simp
next
  case (2 n es)
  from "2.prems" peak_ge [of "Suc n" es] have "n < counter_range" by simp
  with 2 show ?case by (simp add: ctor_lifecycle_state)
next
  case (3 n es)
  then show ?case by (simp add: dtor_lifecycle_state)
qed

lemma run_append:
  "run K pol az (xs @ ys) s =
     (fst (run K pol az xs s) @ fst (run K pol az ys (snd (run K pol az xs s))),
      snd (run K pol az ys (snd (run K pol az xs s))))"
  by (induction xs arbitrary: s rule: list.induct [where 'a = event])
    (simp, rename_tac e es s, case_tac e, simp_all add: split_beta)

lemma lifecycle_state_0: "lifecycle_state K pol az 0 = initial"
  by (simp add: lifecycle_state_def)

lemma balanced_constructs: "balanced n (replicate m Construct @ es) = balanced (n + m) es"
  by (induction m arbitrary: n) simp_all

lemma balanced_destroys: "m \<le> n \<Longrightarrow> balanced n (replicate m Destroy)"
  by (induction m arbitrary: n) simp_all

lemma live_guards_constructs:
  "live_guards n (replicate m Construct @ es) = live_guards (n + m) es"
  by (induction m arbitrary: n) simp_all

lemma live_guards_destroys: "live_guards n (replicate m Destroy) = n - m"
  by (induction m arbitrary: n) simp_all

lemma crossings_constructs:
  "crossings n (replicate m Construct @ es) =
     (if n = 0 \<and> 0 < m then initialization else []) @ crossings (n + m) es"
  by (induction m arbitrary: n) simp_all

lemma crossings_destroys:
  "m \<le> n \<Longrightarrow> crossings n (replicate m Destroy) = (if 0 < m \<and> m = n then teardown else [])"
proof (induction m arbitrary: n)
  case 0
  then show ?case by simp
next
  case (Suc m)
  then have "m \<le> n - 1" by simp
  from Suc.IH [OF this] Suc.prems show ?case by auto
qed

lemma balanced_cycles: "balanced 0 (concat (replicate k [Construct, Destroy]))"
  by (induction k) simp_all

lemma live_guards_cycles: "live_guards 0 (concat (replicate k [Construct, Destroy])) = 0"
  by (induction k) simp_all

lemma crossings_cycles:
  "crossings 0 (concat (replicate k [Construct, Destroy])) =
     concat (replicate k (initialization @ teardown))"
  by (induction k) simp_all

lemma peak_constructs: "peak n (replicate m Construct @ es) = peak (n + m) es"
proof (induction m arbitrary: n)
  case 0
  then show ?case by simp
next
  case (Suc m)
  from peak_ge [of "Suc (n + m)" es] have "n \<le> peak (Suc (n + m)) es" by simp
  with Suc show ?case by (simp add: max_def)
qed

lemma peak_destroys: "peak n (replicate m Destroy) = n"
  by (induction m arbitrary: n) (auto simp add: max_def)

lemma peak_cycles: "peak 0 (concat (replicate k [Construct, Destroy])) \<le> 1"
  by (induction k) (simp_all add: max_def)

lemma all_initialized_populated: "all_initialized (populated K pol az)"
  by (simp add: all_initialized_def populated_def register_default_factories_keeps)

text \<open>What population leaves in the three registries it writes to.\<close>

lemma register_default_factories_model:
  "model_factory (register_default_factories K pol az s) =
     call_register_type pol (VW K) (vw_model_create K)
       (model_factory (register_azure_factories pol az s))"
  by (simp add: register_default_factories_def Let_def)

lemma register_default_factories_trace_logger:
  "trace_logger_factory (register_default_factories K pol az s) =
     call_register_type pol (CONSOLE_TRACE_LOGGER K) (console_tracer_create K)
       (call_register_type pol (NULL_TRACE_LOGGER K) (null_tracer_create K)
         (trace_logger_factory (register_azure_factories pol az s)))"
  by (simp add: register_default_factories_def Let_def)

lemma register_default_factories_sender:
  "sender_factory (register_default_factories K pol az s) =
     call_register_type pol (INTERACTION_FILE_SENDER K) (interaction_file_sender K)
       (call_register_type pol (OBSERVATION_FILE_SENDER K) (observation_file_sender K)
         (sender_factory (register_azure_factories pol az s)))"
  by (simp add: register_default_factories_def Let_def)

text \<open>
  The constructor and the destructor handle the four buffers together, whatever the
  counter is.
\<close>

lemma all_or_none_ctor:
  assumes "all_uninitialized s \<or> all_initialized s"
  shows "all_uninitialized (snd (factory_initializer_ctor K pol az s))
    \<or> all_initialized (snd (factory_initializer_ctor K pol az s))"
proof (cases "init_guard s = 0")
  case True
  then show ?thesis by (simp add: ctor_at_zero)
next
  case False
  with assms show ?thesis
    by (auto simp add: ctor_above_zero all_initialized_def all_uninitialized_def)
qed

lemma all_or_none_dtor:
  assumes "all_uninitialized s \<or> all_initialized s"
  shows "all_uninitialized (snd (factory_initializer_dtor s))
    \<or> all_initialized (snd (factory_initializer_dtor s))"
proof (cases "init_guard s = 1")
  case True
  then show ?thesis by (simp add: dtor_at_one)
next
  case False
  with assms show ?thesis
    by (auto simp add: dtor_elsewhere all_initialized_def all_uninitialized_def)
qed

lemma all_or_none_run:
  "all_uninitialized s \<or> all_initialized s \<Longrightarrow>
     all_uninitialized (snd (run K pol az evs s)) \<or> all_initialized (snd (run K pol az evs s))"
proof (induction evs arbitrary: s)
  case Nil
  then show ?case by simp
next
  case (Cons e es)
  show ?case
  proof (cases e)
    case Construct
    from Cons.IH [OF all_or_none_ctor [OF Cons.prems, of K pol az]] Construct
    show ?thesis by (simp add: split_beta)
  next
    case Destroy
    from Cons.IH [OF all_or_none_dtor [OF Cons.prems]] Destroy
    show ?thesis by (simp add: split_beta)
  qed
qed

lemma all_uninitialized_initial: "all_uninitialized initial"
  by (simp add: initial_def all_uninitialized_def)

section \<open>Properties of the lifecycle guard\<close>

text \<open>
  C1, as the code has it. The counter drives initialization and teardown exactly at the
  boundary crossings as long as no more than \<open>2^32\<close> guards are alive at once.
  In any state, the constructor initializes and populates the registries when it finds
  the counter at 0 and has no effect on them otherwise; the destructor tears them down
  when it brings the counter to 0 and has no effect on them otherwise.
  For every balanced run from the freshly loaded state in which at most \<open>2^32\<close> guards
  are alive at any moment, whatever the constants, the registration policy and the
  collaborator's registrations: the effects of the run are those of \<open>crossings\<close> (the four
  placement news and the population at each step of the number of live guards from 0 to
  1, the four destructor calls at each step from 1 to 0, nothing anywhere else), and the
  final state is the freshly loaded state when no guard is left and the populated
  registries otherwise. In particular \<open>N\<close> constructions followed by \<open>N\<close> destructions,
  for \<open>N\<close> from 1 to \<open>2^32\<close>, initialize once, tear down once and end in the freshly
  loaded state, and \<open>k\<close> load/unload cycles initialize and tear down \<open>k\<close> times.
\<close>

theorem lifecycle_boundary_crossings:
  "fst (factory_initializer_ctor K pol az s) = (if init_guard s = 0 then initialization else [])
   \<and> fst (factory_initializer_dtor s) = (if init_guard s = 1 then teardown else [])
   \<and> (balanced 0 evs \<and> peak 0 evs \<le> counter_range \<longrightarrow>
      fst (run K pol az evs initial) = crossings 0 evs
      \<and> snd (run K pol az evs initial) = lifecycle_state K pol az (live_guards 0 evs))
   \<and> (0 < N \<and> N \<le> counter_range \<longrightarrow>
      run K pol az (replicate N Construct @ replicate N Destroy) initial =
        (initialization @ teardown, initial))
   \<and> run K pol az (concat (replicate k [Construct, Destroy])) initial =
        (concat (replicate k (initialization @ teardown)), initial)"
proof (intro conjI impI)
  show "fst (factory_initializer_ctor K pol az s) =
      (if init_guard s = 0 then initialization else [])"
    by (simp add: ctor_at_zero ctor_above_zero)
next
  show "fst (factory_initializer_dtor s) = (if init_guard s = 1 then teardown else [])"
    by (simp add: dtor_at_one dtor_elsewhere)
next
  assume "balanced 0 evs \<and> peak 0 evs \<le> counter_range"
  then have r: "run K pol az evs (lifecycle_state K pol az 0) =
      (crossings 0 evs, lifecycle_state K pol az (live_guards 0 evs))"
    by (intro run_lifecycle_state) simp_all
  from r show "fst (run K pol az evs initial) = crossings 0 evs"
    by (simp add: lifecycle_state_0)
  from r show "snd (run K pol az evs initial) = lifecycle_state K pol az (live_guards 0 evs)"
    by (simp add: lifecycle_state_0)
next
  assume N: "0 < N \<and> N \<le> counter_range"
  let ?evs = "replicate N Construct @ replicate N Destroy"
  have "balanced 0 ?evs"
    by (simp add: balanced_constructs balanced_destroys)
  moreover from N have "peak 0 ?evs \<le> counter_range"
    by (simp add: peak_constructs peak_destroys)
  ultimately have "run K pol az ?evs (lifecycle_state K pol az 0) =
      (crossings 0 ?evs, lifecycle_state K pol az (live_guards 0 ?evs))"
    by (rule run_lifecycle_state)
  with N show "run K pol az ?evs initial = (initialization @ teardown, initial)"
    by (simp add: lifecycle_state_0 crossings_constructs crossings_destroys
        live_guards_constructs live_guards_destroys)
next
  have "peak 0 (concat (replicate k [Construct, Destroy])) \<le> counter_range"
    using peak_cycles [of k] by (simp add: counter_range_def)
  from run_lifecycle_state [OF balanced_cycles this, of K pol az]
  show "run K pol az (concat (replicate k [Construct, Destroy])) initial =
      (concat (replicate k (initialization @ teardown)), initial)"
    by (simp add: lifecycle_state_0 crossings_cycles live_guards_cycles)
qed

text \<open>
  An interleaved run of four guards, which crosses the boundary twice in each direction,
  and three constructions followed by three destructions.
\<close>

theorem lifecycle_boundary_crossings_witness:
  "balanced 0 [Construct, Construct, Destroy, Construct, Destroy, Destroy, Construct, Destroy]
   \<and> peak 0 [Construct, Construct, Destroy, Construct, Destroy, Destroy, Construct, Destroy] \<le>
       counter_range
   \<and> fst (run example_constants Overwrite []
        [Construct, Construct, Destroy, Construct, Destroy, Destroy, Construct, Destroy] initial) =
      initialization @ teardown @ initialization @ teardown
   \<and> snd (run example_constants Overwrite []
        [Construct, Construct, Destroy, Construct, Destroy, Destroy, Construct, Destroy] initial) =
      initial
   \<and> (0::nat) < 3 \<and> 3 \<le> counter_range
   \<and> run example_constants Overwrite []
        [Construct, Construct, Construct, Destroy, Destroy, Destroy] initial =
      (initialization @ teardown, initial)"
proof -
  let ?evs = "[Construct, Construct, Destroy, Construct, Destroy, Destroy, Construct, Destroy]"
  have b: "balanced 0 ?evs" by simp
  have p: "peak 0 ?evs \<le> counter_range" by (simp add: counter_range_def)
  have c: "crossings 0 ?evs = initialization @ teardown @ initialization @ teardown" by simp
  have l: "live_guards 0 ?evs = 0" by simp
  have n: "(0::nat) < 3 \<and> 3 \<le> counter_range" by (simp add: counter_range_def)
  have r: "replicate 3 Construct @ replicate 3 Destroy =
      [Construct, Construct, Construct, Destroy, Destroy, Destroy]"
    by (simp add: numeral_3_eq_3)
  from lifecycle_boundary_crossings [where evs = ?evs and K = example_constants
      and pol = Overwrite and az = "[]" and N = 3 and k = 0 and s = initial] b p n
  have "fst (run example_constants Overwrite [] ?evs initial) = crossings 0 ?evs"
    "snd (run example_constants Overwrite [] ?evs initial) =
      lifecycle_state example_constants Overwrite [] (live_guards 0 ?evs)"
    "run example_constants Overwrite [] (replicate 3 Construct @ replicate 3 Destroy) initial =
      (initialization @ teardown, initial)"
    by blast+
  with b p c l n r show ?thesis by (simp add: lifecycle_state_def)
qed

text \<open>
  C1, as stated, fails for a balanced run that keeps more than \<open>2^32\<close> guards alive:
  after \<open>2^32\<close> constructions the 32-bit counter is 0 again, and the next construction
  runs the initialization a second time, although the number of live guards goes from
  \<open>2^32\<close> to \<open>2^32 + 1\<close> and not from 0 to 1.
\<close>

theorem reinitialization_after_wrap_around:
  "balanced 0 (replicate 4294967296 Construct @ [Construct])
   \<and> crossings 0 (replicate 4294967296 Construct @ [Construct]) = initialization
   \<and> fst (run example_constants Overwrite [] (replicate 4294967296 Construct @ [Construct])
        initial) = initialization @ initialization"
proof -
  let ?many = "replicate counter_range Construct"
  have pos: "0 < counter_range" by (simp add: counter_range_def)
  have b: "balanced 0 (?many @ [])"
    by (simp only: balanced_constructs) simp
  have p: "peak 0 (?many @ []) \<le> counter_range"
    by (simp only: peak_constructs) simp
  from run_lifecycle_state [OF b p, of example_constants Overwrite "[]"] pos
  have "run example_constants Overwrite [] (?many @ []) initial =
      (initialization, lifecycle_state example_constants Overwrite [] counter_range)"
    by (simp only: crossings_constructs live_guards_constructs lifecycle_state_0)
      (simp add: lifecycle_state_0)
  then have first: "run example_constants Overwrite [] ?many initial =
      (initialization, lifecycle_state example_constants Overwrite [] counter_range)"
    by simp
  have "init_guard (lifecycle_state example_constants Overwrite [] counter_range) = 0"
    using pos by (simp add: lifecycle_state_def of_nat_counter_range)
  then have again: "fst (factory_initializer_ctor example_constants Overwrite []
      (lifecycle_state example_constants Overwrite [] counter_range)) = initialization"
    by (rule ctor_at_zero)
  have run: "fst (run example_constants Overwrite [] (?many @ [Construct]) initial) =
      initialization @ initialization"
    by (simp add: run_append first again split_beta)
  have bal: "balanced 0 (?many @ [Construct])"
    by (simp only: balanced_constructs) simp
  have cr: "crossings 0 (?many @ [Construct]) = initialization"
    using pos by (simp only: crossings_constructs) simp
  from bal cr run
  have "balanced 0 (?many @ [Construct])
    \<and> crossings 0 (?many @ [Construct]) = initialization
    \<and> fst (run example_constants Overwrite [] (?many @ [Construct]) initial) =
        initialization @ initialization"
    by blast
  then show ?thesis
    unfolding counter_range_def .
qed

text \<open>
  C2, as the code has it. When the counter goes from 1 to 0 the destructor calls run in
  the order data transport, model, sender, trace logger: the order in which the
  constructor initialized the registries, not its reverse.
\<close>

theorem teardown_in_initialization_order:
  "init_guard s = 1 \<longrightarrow>
     fst (factory_initializer_dtor s) = teardown
     \<and> destroyed_axes (fst (factory_initializer_dtor s)) =
         [Data_transport, Model, Sender, Trace_logger]
     \<and> destroyed_axes (fst (factory_initializer_dtor s)) =
         initialized_axes (fst (factory_initializer_ctor K pol az initial))"
proof
  assume one: "init_guard s = 1"
  have "init_guard initial = 0" by (simp add: initial_def)
  then have "fst (factory_initializer_ctor K pol az initial) = initialization"
    by (rule ctor_at_zero)
  with dtor_at_one(1) [OF one]
  show "fst (factory_initializer_dtor s) = teardown
     \<and> destroyed_axes (fst (factory_initializer_dtor s)) =
         [Data_transport, Model, Sender, Trace_logger]
     \<and> destroyed_axes (fst (factory_initializer_dtor s)) =
         initialized_axes (fst (factory_initializer_ctor K pol az initial))"
    by (simp add: teardown_def initialization_def)
qed

theorem teardown_in_initialization_order_witness:
  "init_guard (snd (factory_initializer_ctor example_constants Overwrite [] initial)) = 1
   \<and> destroyed_axes (fst (factory_initializer_dtor
        (snd (factory_initializer_ctor example_constants Overwrite [] initial)))) =
      [Data_transport, Model, Sender, Trace_logger]"
proof -
  have "init_guard initial = 0" by (simp add: initial_def)
  then have one: "init_guard (snd (factory_initializer_ctor example_constants Overwrite [] initial)) = 1"
    by (rule ctor_at_zero)
  with teardown_in_initialization_order
    [of "snd (factory_initializer_ctor example_constants Overwrite [] initial)"
      example_constants Overwrite "[]"]
  show ?thesis by blast
qed

text \<open>
  C2, as stated, fails: one guard is constructed and destroyed, and the registries are
  not destroyed in the reverse of the order in which they were initialized.
\<close>

theorem teardown_not_reversed:
  "destroyed_axes (fst (factory_initializer_dtor
       (snd (factory_initializer_ctor example_constants Overwrite [] initial)))) \<noteq>
   rev (initialized_axes (fst (factory_initializer_ctor example_constants Overwrite [] initial)))"
proof -
  have z: "init_guard initial = 0" by (simp add: initial_def)
  have "fst (factory_initializer_dtor
       (snd (factory_initializer_ctor example_constants Overwrite [] initial))) = teardown"
    by (rule dtor_at_one) (rule ctor_at_zero [OF z])
  moreover have "fst (factory_initializer_ctor example_constants Overwrite [] initial) = initialization"
    by (rule ctor_at_zero [OF z])
  ultimately show ?thesis by (simp add: teardown_def initialization_def)
qed

text \<open>
  C3. After any sequence of guard constructions and destructions, balanced or not, from
  the freshly loaded state, the four registries are all uninitialized or all
  initialized. (The states are those between two calls: the constructor and the
  destructor each handle the four buffers in one go.)
\<close>

theorem registries_all_or_none:
  "all_uninitialized (snd (run K pol az evs initial))
   \<or> all_initialized (snd (run K pol az evs initial))"
  using all_or_none_run [of initial K pol az evs] all_uninitialized_initial
  by simp

section \<open>Properties of the default factory set\<close>

text \<open>
  C4, as the code has it. Each of the two file-backed sender factories constructs a
  \<open>file_logger\<close> bound to the resolved file name and to the trace logger passed to the
  call. The error callback is not passed on: the whole outcome of the call (result code,
  output slot, status, free store) is the same for any two callbacks. Population
  registers the two closures, observation first, after the collaborator's registrations.
\<close>

theorem file_senders_bind_file_name_and_trace_logger:
  "created (observation_file_sender K cfg cb tr st h) =
     Some (File_logger (get cfg (OBSERVATION_FILE_NAME K) ''observation.fb.data'') tr)
   \<and> created (interaction_file_sender K cfg cb tr st h) =
     Some (File_logger (get cfg (INTERACTION_FILE_NAME K) ''interaction.fb.data'') tr)
   \<and> observation_file_sender K cfg cb tr st h = observation_file_sender K cfg cb' tr st h
   \<and> interaction_file_sender K cfg cb tr st h = interaction_file_sender K cfg cb' tr st h
   \<and> sender_factory (register_default_factories K pol az s) =
       call_register_type pol (INTERACTION_FILE_SENDER K) (interaction_file_sender K)
         (call_register_type pol (OBSERVATION_FILE_SENDER K) (observation_file_sender K)
           (sender_factory (register_azure_factories pol az s)))"
proof -
  have "file_sender_create K cfg f cb tr st h = file_sender_create K cfg f cb' tr st h" for f
    by (simp add: file_sender_create_def)
  then show ?thesis
    by (simp add: observation_file_sender_def interaction_file_sender_def
        created_appended [where h = h] file_sender_create_simps
        register_default_factories_sender)
qed

text \<open>
  C4, as stated, fails: called with two different error callbacks and otherwise the same
  arguments, each factory leaves the same sender behind, so the sender is not bound to
  the callback.
\<close>

theorem file_sender_error_callback_dropped:
  "(Some 1 :: addr option) \<noteq> Some 2
   \<and> observation_file_sender example_constants Map.empty (Some 1) None None [] =
       observation_file_sender example_constants Map.empty (Some 2) None None []
   \<and> interaction_file_sender example_constants Map.empty (Some 1) None None [] =
       interaction_file_sender example_constants Map.empty (Some 2) None None []"
  by (simp add: observation_file_sender_def interaction_file_sender_def file_sender_create_def)

text \<open>
  C5. For every configuration: when the file-name option is not set, the observation
  sender factory yields a sender bound to \<open>observation.fb.data\<close> and the interaction
  sender factory one bound to \<open>interaction.fb.data\<close>; when the option is set, the sender
  is bound to the name supplied.
\<close>

theorem file_sender_default_file_name:
  "(cfg (OBSERVATION_FILE_NAME K) = None \<longrightarrow>
      created (observation_file_sender K cfg cb tr st h) =
        Some (File_logger ''observation.fb.data'' tr))
   \<and> (cfg (OBSERVATION_FILE_NAME K) = Some v \<longrightarrow>
      created (observation_file_sender K cfg cb tr st h) = Some (File_logger v tr))
   \<and> (cfg (INTERACTION_FILE_NAME K) = None \<longrightarrow>
      created (interaction_file_sender K cfg cb tr st h) =
        Some (File_logger ''interaction.fb.data'' tr))
   \<and> (cfg (INTERACTION_FILE_NAME K) = Some w \<longrightarrow>
      created (interaction_file_sender K cfg cb tr st h) = Some (File_logger w tr))"
  by (simp add: observation_file_sender_def interaction_file_sender_def get_def
      created_appended [where h = h] file_sender_create_simps)

theorem file_sender_default_file_name_witness:
  "created (observation_file_sender example_constants Map.empty (Some 3) None None []) =
     Some (File_logger ''observation.fb.data'' None)
   \<and> created (observation_file_sender example_constants
         [''observation.file.name'' \<mapsto> ''obs.log''] (Some 3) None None []) =
     Some (File_logger ''obs.log'' None)
   \<and> created (interaction_file_sender example_constants Map.empty (Some 3) None None []) =
     Some (File_logger ''interaction.fb.data'' None)
   \<and> created (interaction_file_sender example_constants
         [''interaction.file.name'' \<mapsto> ''int.log''] (Some 3) None None []) =
     Some (File_logger ''int.log'' None)"
proof -
  have unset: "Map.empty (OBSERVATION_FILE_NAME example_constants) = (None :: string option)"
    "Map.empty (INTERACTION_FILE_NAME example_constants) = (None :: string option)"
    by simp_all
  have given: "[''observation.file.name'' \<mapsto> ''obs.log'']
      (OBSERVATION_FILE_NAME example_constants) = Some ''obs.log''"
    "[''interaction.file.name'' \<mapsto> ''int.log'']
      (INTERACTION_FILE_NAME example_constants) = Some ''int.log''"
    by (simp_all add: example_constants_def)
  from unset
    file_sender_default_file_name [where cfg = Map.empty and K = example_constants
      and cb = "Some 3" and tr = None and st = None and h = "[]"]
  have a: "created (observation_file_sender example_constants Map.empty (Some 3) None None []) =
     Some (File_logger ''observation.fb.data'' None)"
    "created (interaction_file_sender example_constants Map.empty (Some 3) None None []) =
     Some (File_logger ''interaction.fb.data'' None)"
    by blast+
  from given(1)
    file_sender_default_file_name [where cfg = "[''observation.file.name'' \<mapsto> ''obs.log'']"
      and K = example_constants and v = "''obs.log''" and cb = "Some 3" and tr = None
      and st = None and h = "[]"]
  have b: "created (observation_file_sender example_constants
         [''observation.file.name'' \<mapsto> ''obs.log''] (Some 3) None None []) =
     Some (File_logger ''obs.log'' None)"
    by blast
  from given(2)
    file_sender_default_file_name [where cfg = "[''interaction.file.name'' \<mapsto> ''int.log'']"
      and K = example_constants and w = "''int.log''" and cb = "Some 3" and tr = None
      and st = None and h = "[]"]
  have c: "created (interaction_file_sender example_constants
         [''interaction.file.name'' \<mapsto> ''int.log''] (Some 3) None None []) =
     Some (File_logger ''int.log'' None)"
    by blast
  from a b c show ?thesis by simp
qed

text \<open>
  C6. For every configuration, the function registered under \<open>value::NULL_TRACE_LOGGER\<close>
  returns success, leaves the output slot null and creates nothing, and the function
  registered under \<open>value::CONSOLE_TRACE_LOGGER\<close> returns success with a newly created
  \<open>console_tracer\<close> in the output slot. Population registers the two, in this order,
  after the collaborator's registrations.
\<close>

theorem default_trace_loggers:
  "result_code (null_tracer_create K cfg tr st h) = success K
   \<and> retval (null_tracer_create K cfg tr st h) = None
   \<and> store (null_tracer_create K cfg tr st h) = h
   \<and> result_code (console_tracer_create K cfg tr st h) = success K
   \<and> newly_created h (console_tracer_create K cfg tr st h)
   \<and> created (console_tracer_create K cfg tr st h) = Some Console_tracer
   \<and> trace_logger_factory (register_default_factories K pol az s) =
       call_register_type pol (CONSOLE_TRACE_LOGGER K) (console_tracer_create K)
         (call_register_type pol (NULL_TRACE_LOGGER K) (null_tracer_create K)
           (trace_logger_factory (register_azure_factories pol az s)))"
  by (simp add: null_tracer_create_simps console_tracer_create_simps
      created_appended [where h = h] newly_created_appended [where h = h]
      register_default_factories_trace_logger)

text \<open>
  C7, as the code has it. The model factory, the console tracer factory and the two file
  sender factories satisfy the success contract: they return success with a newly
  created object in the output slot and the status as the caller passed it. The null
  tracer factory returns success with the status untouched, but its output slot is
  null and it creates no object.
\<close>

theorem builtin_success_contract:
  "success_contract K st h (vw_model_create K cfg tr st h)
   \<and> success_contract K st h (console_tracer_create K cfg tr st h)
   \<and> success_contract K st h (observation_file_sender K cfg cb tr st h)
   \<and> success_contract K st h (interaction_file_sender K cfg cb tr st h)
   \<and> result_code (null_tracer_create K cfg tr st h) = success K
   \<and> retval (null_tracer_create K cfg tr st h) = None
   \<and> status (null_tracer_create K cfg tr st h) = st
   \<and> store (null_tracer_create K cfg tr st h) = h"
  by (simp add: success_contract_def null_tracer_create_simps vw_model_create_simps
      console_tracer_create_simps observation_file_sender_def interaction_file_sender_def
      file_sender_create_simps newly_created_appended [where h = h])

theorem builtin_success_contract_witness:
  "success_contract example_constants None []
     (vw_model_create example_constants Map.empty None None [])
   \<and> result_code (vw_model_create example_constants Map.empty None None []) =
       success example_constants
   \<and> retval (vw_model_create example_constants Map.empty None None []) = Some 0
   \<and> store (vw_model_create example_constants Map.empty None None []) = [Vw_model None]
   \<and> retval (null_tracer_create example_constants Map.empty None None []) = None"
  using builtin_success_contract [of example_constants None "[]" Map.empty None None]
  by (simp add: vw_model_create_simps)

text \<open>
  C7, as stated, fails for the null tracer factory: it returns success, and the output
  slot holds no newly created object.
\<close>

theorem null_tracer_breaks_success_contract:
  "\<not> success_contract example_constants None []
       (null_tracer_create example_constants Map.empty None None [])"
  by (simp add: success_contract_def newly_created_def null_tracer_create_def)







text \<open>Under the overwriting policy the key \<open>VW\<close> ends up bound to \<open>vw_model_create\<close>.\<close>

lemma vw_registered_overwrite:
  "case model_factory (snd (factory_initializer_ctor K Overwrite az initial)) of
     None \<Rightarrow> False
   | Some m \<Rightarrow> m (VW K) = Some (vw_model_create K)"
proof -
  let ?s = "initial\<lparr>init_guard := 1, data_transport_factory := Some Map.empty,
    model_factory := Some Map.empty, sender_factory := Some Map.empty,
    trace_logger_factory := Some Map.empty\<rparr>"
  have "model_factory (register_azure_factories Overwrite az ?s) \<noteq> None"
    by (simp add: register_azure_factories_keeps)
  then obtain m where m: "model_factory (register_azure_factories Overwrite az ?s) = Some m"
    by blast
  have "snd (factory_initializer_ctor K Overwrite az initial) =
      register_default_factories K Overwrite az ?s"
    by (simp add: factory_initializer_ctor_def Let_def initial_def)
  with m show ?thesis
    by (simp add: register_default_factories_model call_register_type_def register_type_def)
qed

text \<open>
  C9. The function registered under \<open>value::VW\<close> ignores the configuration (any two
  configurations give the same outcome), returns success, and leaves in the output slot a
  newly created \<open>vw_model\<close> constructed with the trace logger passed to the call.
  Population registers it under \<open>value::VW\<close> after the collaborator's registrations,
  and under the overwriting policy that key is bound to it once the first guard is
  constructed.
\<close>

theorem vw_model_create_ignores_configuration:
  "vw_model_create K cfg tr st h = vw_model_create K cfg' tr st h
   \<and> result_code (vw_model_create K cfg tr st h) = success K
   \<and> newly_created h (vw_model_create K cfg tr st h)
   \<and> created (vw_model_create K cfg tr st h) = Some (Vw_model tr)
   \<and> model_factory (register_default_factories K pol az s) =
       call_register_type pol (VW K) (vw_model_create K)
         (model_factory (register_azure_factories pol az s))
   \<and> (case model_factory (snd (factory_initializer_ctor K Overwrite az initial)) of
         None \<Rightarrow> False
       | Some m \<Rightarrow> m (VW K) = Some (vw_model_create K))"
proof -
  have "vw_model_create K cfg tr st h = vw_model_create K cfg' tr st h"
    by (simp add: vw_model_create_def)
  with vw_registered_overwrite [of K az] show ?thesis
    by (simp add: vw_model_create_simps created_appended [where h = h]
        newly_created_appended [where h = h] register_default_factories_model)
qed

text \<open>
  C10. For every input, each built-in factory function (the model factory, the null and
  the console tracer factories, \<open>file_sender_create\<close> and the two file sender closures)
  returns the success code and leaves the status as the caller passed it.
\<close>

theorem builtin_factories_always_succeed:
  "result_code (vw_model_create K cfg tr st h) = success K
   \<and> status (vw_model_create K cfg tr st h) = st
   \<and> result_code (null_tracer_create K cfg tr st h) = success K
   \<and> status (null_tracer_create K cfg tr st h) = st
   \<and> result_code (console_tracer_create K cfg tr st h) = success K
   \<and> status (console_tracer_create K cfg tr st h) = st
   \<and> result_code (file_sender_create K cfg file_name cb tr st h) = success K
   \<and> status (file_sender_create K cfg file_name cb tr st h) = st
   \<and> result_code (observation_file_sender K cfg cb tr st h) = success K
   \<and> status (observation_file_sender K cfg cb tr st h) = st
   \<and> result_code (interaction_file_sender K cfg cb tr st h) = success K
   \<and> status (interaction_file_sender K cfg cb tr st h) = st"
  by (simp add: vw_model_create_simps null_tracer_create_simps console_tracer_create_simps
      observation_file_sender_def interaction_file_sender_def file_sender_create_simps)

end
